theory Spec2Isabelle
  imports Main
begin

section \<open>Data model of the sign-in pipeline (packages/ssx-server/src/server.ts)\<close>

text \<open>
  The error kinds carried by the \<open>error\<close> field of a verification result. The class
  \<open>SiweError\<close> is imported from the package \<open>siwe\<close>; its kinds are taken from the
  error taxonomy of the specification.
\<close>

datatype SiweError =
    MalformedMessage
  | NonceMismatch
  | Expired
  | InvalidSignature
  | Timeout
  | IdentityResolutionFailed
  | SinkUnavailable

text \<open>
  The structured sign-in message. \<open>chainId\<close> is a JavaScript number holding a
  non-negative integer; the timestamps are points in time counted in seconds.
  A number above \<open>Number.MAX_SAFE_INTEGER\<close> stands for the floating-point value
  nearest to it.
\<close>

record SiweMessage =
  address :: string
  chainId :: nat
  nonce :: string
  issuedAt :: nat
  expirationTime :: "nat option"
  statement :: "string option"
  resources :: "string list"

text \<open>
  The first argument of \<open>login\<close> has type \<open>Partial<SiweMessage> | string\<close>: either the
  raw text of a message or an object with some of the fields set.
\<close>

datatype siwe_input =
    SiweString string
  | SiweObject "(string \<times> string) list"

record SiweResponse =
  success :: bool
  error :: "SiweError option"
  data :: SiweMessage

text \<open>
  Values that JavaScript code throws, or that a promise rejects with: an \<open>Error\<close> with
  its message, or a whole verification response.
\<close>

datatype thrown =
    JsError string
  | SiweRejection SiweResponse

text \<open>
  The settled state of a promise. An \<open>async\<close> function returns a promise too: it
  rejects with whatever its body throws and resolves with what its body returns.
\<close>

datatype 'a promise =
    Rejected thrown
  | Resolved 'a

record VerifyParams =
  signature :: string
  nonce :: string

text \<open>
  The capability handed to the verifier as \<open>verificationFallback\<close>: the on-chain
  predicate \<open>verifyOnChain(address, digest, signature)\<close>.
\<close>

type_synonym VerificationFallback = "string \<Rightarrow> string \<Rightarrow> string \<Rightarrow> bool"

record 'p VerifyOpts =
  verificationFallback :: "VerificationFallback option"
  provider :: "'p option"

record SSXEnsData =
  domain :: "string option"
  avatarUrl :: "string option"

record SSXEnsResolveOptions =
  domain :: bool
  avatar :: bool

text \<open>The fourth argument of \<open>login\<close> has type \<open>boolean | SSXEnsResolveOptions\<close>.\<close>

datatype resolve_ens_arg =
    EnsBool bool
  | EnsOptions SSXEnsResolveOptions

datatype SSXEventLogTypes =
    LOGIN
  | OtherEventLogType string

record event_content =
  signature :: string
  siwe :: siwe_input
  isGnosis :: bool

record SSXLogFields =
  userId :: string
  type :: SSXEventLogTypes
  content :: event_content

text \<open>
  The session record. The field \<open>ens\<close> is \<open>None\<close> where the JavaScript value is
  \<open>undefined\<close>.
\<close>

record SessionData =
  siwe :: SiweMessage
  signature :: string
  daoLogin :: bool
  ens :: "SSXEnsData option"

text \<open>
  The object that \<open>login\<close> resolves with. \<open>session\<close> is \<open>None\<close> where the JavaScript
  value would be \<open>null\<close>.
\<close>

record LoginResult =
  success :: bool
  error :: "SiweError option"
  session :: "SessionData option"

text \<open>
  What a call leaves behind besides its result, in the order it happens:
  a line on \<open>console.error\<close>, a call of \<open>ssxLog\<close> (the event sink), an event handed
  to the emitter's listeners, and a call of the on-chain fallback verifier.
\<close>

datatype effect =
    ConsoleError thrown
  | SsxLog SSXLogFields
  | Emit SSXEventLogTypes SSXLogFields
  | VerifyOnChain string string string

text \<open>
  The collaborators that server.ts imports and calls, taken as parameters:
  the constructor and the methods \<open>verify\<close> and \<open>prepareMessage\<close> of \<open>SiweMessage\<close>
  (package siwe), \<open>utils.verifyMessage\<close> (package ethers), \<open>SiweGnosisVerify\<close>
  (package ssx-gnosis-extension), and \<open>ssxResolveEns\<close> and \<open>ssxLog\<close> (package
  ssx-core). \<open>ensRejectsFirst\<close> is the one scheduling fact the code depends on: when the
  verification and the name lookup both reject, whether the lookup does so first.
  \<open>numberBeyondSafeInteger\<close> is what the JavaScript runtime prints for a number above
  \<open>Number.MAX_SAFE_INTEGER\<close>: the digits of the rounded value, and exponent notation
  from \<open>1e+21\<close> on.
\<close>

record 'p Collaborators =
  newSiweMessage :: "siwe_input \<Rightarrow> thrown + SiweMessage"
  verify :: "SiweMessage \<Rightarrow> VerifyParams \<Rightarrow> 'p VerifyOpts \<Rightarrow> effect list \<times> SiweResponse promise"
  prepareMessage :: "SiweMessage \<Rightarrow> string"
  verifyMessage :: "string \<Rightarrow> string \<Rightarrow> thrown + string"
  SiweGnosisVerify :: VerificationFallback
  ssxResolveEns :: "'p option \<Rightarrow> string \<Rightarrow> SSXEnsResolveOptions option \<Rightarrow> SSXEnsData promise"
  ssxLog :: "SSXLogFields \<Rightarrow> bool promise"
  ensRejectsFirst :: bool
  numberBeyondSafeInteger :: "nat \<Rightarrow> string"

text \<open>
  The instance of \<open>SSXServer\<close>: its provider (set by the constructor only when an RPC
  provider is configured) and, inherited from \<open>EventEmitter\<close>, \<open>emit\<close>, which runs the
  registered listeners and throws what a listener throws.
\<close>

record 'p SSXServer =
  provider :: "'p option"
  emit :: "SSXEventLogTypes \<Rightarrow> SSXLogFields \<Rightarrow> thrown + bool"

section \<open>Operations\<close>

text \<open>The decimal digits of a natural number.\<close>

function string_of_nat :: "nat \<Rightarrow> string" where
  "string_of_nat n =
     (if n < 10 then [''0123456789'' ! n]
      else string_of_nat (n div 10) @ [''0123456789'' ! (n mod 10)])"
  by pat_completeness auto
termination
  by (relation "measure (\<lambda>n. n)") auto

declare string_of_nat.simps [simp del]

text \<open>
  The string that a template literal makes of a number (line 160). An integer up to
  \<open>Number.MAX_SAFE_INTEGER\<close>, which is \<open>2^53 - 1\<close>, is printed with exactly its decimal
  digits; above it the runtime prints the rounded value in its own way.
\<close>

definition numberToString :: "'p Collaborators \<Rightarrow> nat \<Rightarrow> string" where
  "numberToString C n =
     (if n \<le> 9007199254740991 then string_of_nat n else numberBeyondSafeInteger C n)"

text \<open>\<open>log\<close> (lines 77-79): hands the event to \<open>ssxLog\<close>.\<close>

definition log :: "'p Collaborators \<Rightarrow> SSXLogFields \<Rightarrow> bool promise" where
  "log C d = ssxLog C d"

text \<open>\<open>resolveEns\<close> (lines 190-197): forwards to \<open>ssxResolveEns\<close> with the provider.\<close>

definition resolveEns ::
  "'p Collaborators \<Rightarrow> 'p SSXServer \<Rightarrow> string \<Rightarrow> SSXEnsResolveOptions option \<Rightarrow> SSXEnsData promise"
where
  "resolveEns C srv addr resolveEnsOpts = ssxResolveEns C (SSXServer.provider srv) addr resolveEnsOpts"

text \<open>
  \<open>logout\<close> (lines 205-209): \<open>return destroySession?.()\<close>. Without a capability the
  optional call yields \<open>undefined\<close> (\<open>None\<close>); with one, the promise it returns is the
  result.
\<close>

definition logout :: "(unit \<Rightarrow> 'a promise) option \<Rightarrow> 'a option promise" where
  "logout destroySession =
     (case destroySession of
        None \<Rightarrow> Resolved None
      | Some destroy \<Rightarrow>
          (case destroy () of
             Rejected e \<Rightarrow> Rejected e
           | Resolved v \<Rightarrow> Resolved (Some v)))"

text \<open>JavaScript truthiness of the \<open>resolveEns\<close> argument: an object is always truthy.\<close>

fun truthy :: "resolve_ens_arg \<Rightarrow> bool" where
  "truthy (EnsBool b) = b"
| "truthy (EnsOptions _) = True"

text \<open>
  Lines 124-130 of \<open>login\<close>: the name lookup is started only for a truthy argument, with
  the options when the argument is not \<open>true\<close> itself.
\<close>

definition ensPromise ::
  "'p Collaborators \<Rightarrow> 'p SSXServer \<Rightarrow> SiweMessage \<Rightarrow> resolve_ens_arg \<Rightarrow> SSXEnsData promise option"
where
  "ensPromise C srv siweMessage arg =
     (if truthy arg
      then Some (resolveEns C srv (address siweMessage)
                   (case arg of EnsBool _ \<Rightarrow> None | EnsOptions opts \<Rightarrow> Some opts))
      else None)"

text \<open>
  \<open>Promise.all\<close> over the one or two promises of \<open>login\<close>, followed by the destructuring
  \<open>[siweMessageVerify, ensData]\<close>: with one promise only, \<open>ensData\<close> is \<open>undefined\<close>.
  It rejects with the reason of the promise that rejects first.
\<close>

definition promiseAll ::
  "bool \<Rightarrow> 'a promise \<Rightarrow> 'b promise option \<Rightarrow> ('a \<times> 'b option) promise"
where
  "promiseAll secondRejectsFirst p q =
     (case q of
        None \<Rightarrow> (case p of Rejected e \<Rightarrow> Rejected e | Resolved a \<Rightarrow> Resolved (a, None))
      | Some q' \<Rightarrow>
          (case p of
             Rejected e \<Rightarrow>
               (case q' of
                  Rejected e' \<Rightarrow> Rejected (if secondRejectsFirst then e' else e)
                | Resolved _ \<Rightarrow> Rejected e)
           | Resolved a \<Rightarrow>
               (case q' of
                  Rejected e' \<Rightarrow> Rejected e'
                | Resolved b \<Rightarrow> Resolved (a, Some b))))"

text \<open>Lines 159-167 of \<open>login\<close>: the audit event.\<close>

definition loginEvent ::
  "'p Collaborators \<Rightarrow> SiweMessage \<Rightarrow> siwe_input \<Rightarrow> string \<Rightarrow> bool \<Rightarrow> bool \<Rightarrow> SSXLogFields"
where
  "loginEvent C d siweIn sig dao smartContractWalletOrCustomMethod =
     \<lparr> userId = ''did:pkh:eip155:'' @ numberToString C (chainId d) @ '':'' @ address d,
       type = LOGIN,
       content = \<lparr> event_content.signature = sig,
                   event_content.siwe = siweIn,
                   isGnosis = (dao \<and> smartContractWalletOrCustomMethod) \<rparr> \<rparr>"

text \<open>
  \<open>login\<close> (lines 99-182). The result is the trace of effects and the settled promise:
  \<open>Rejected\<close> is an exception that leaves \<open>login\<close>.
\<close>

definition login ::
  "'p Collaborators \<Rightarrow> 'p SSXServer \<Rightarrow> siwe_input \<Rightarrow> string \<Rightarrow> bool \<Rightarrow> resolve_ens_arg \<Rightarrow> string
     \<Rightarrow> effect list \<times> LoginResult promise"
where
  "login C srv siweIn sig dao resolveEnsArg nonceArg =
     (case newSiweMessage C siweIn of
        Inl e \<Rightarrow> ([], Rejected e)
      | Inr siweMessage \<Rightarrow>
          (case verify C siweMessage
                  \<lparr> VerifyParams.signature = sig, VerifyParams.nonce = nonceArg \<rparr>
                  \<lparr> verificationFallback = (if dao then Some (SiweGnosisVerify C) else None),
                    VerifyOpts.provider = SSXServer.provider srv \<rparr> of
             (veffs, siweMessageVerifyPromise) \<Rightarrow>
               (case promiseAll (ensRejectsFirst C) siweMessageVerifyPromise
                       (ensPromise C srv siweMessage resolveEnsArg) of
                  Rejected err \<Rightarrow> (veffs @ [ConsoleError err], Rejected err)
                | Resolved (resp, ensData) \<Rightarrow>
                    (case verifyMessage C (prepareMessage C (data resp)) sig of
                       Inl err \<Rightarrow> (veffs @ [ConsoleError err], Rejected err)
                     | Inr recovered \<Rightarrow>
                         (let smartContractWalletOrCustomMethod = \<not> (recovered = address (data resp));
                              event = loginEvent C (data resp) siweIn sig dao smartContractWalletOrCustomMethod;
                              unawaited = log C event
                          in (case emit srv (type event) event of
                                Inl err \<Rightarrow> (veffs @ [SsxLog event], Rejected err)
                              | Inr _ \<Rightarrow>
                                  (case newSiweMessage C siweIn of
                                     Inl err \<Rightarrow> (veffs @ [SsxLog event, Emit (type event) event], Rejected err)
                                   | Inr sessionSiwe \<Rightarrow>
                                       (veffs @ [SsxLog event, Emit (type event) event],
                                        Resolved
                                          \<lparr> LoginResult.success = SiweResponse.success resp,
                                            LoginResult.error = SiweResponse.error resp,
                                            session = Some \<lparr> SessionData.siwe = sessionSiwe,
                                                             SessionData.signature = sig,
                                                             daoLogin = dao,
                                                             ens = ensData \<rparr> \<rparr>))))))))"

section \<open>The verifier of section 4.3\<close>

text \<open>The two shapes of a verification response.\<close>

definition verified :: "SiweMessage \<Rightarrow> SiweResponse" where
  "verified message = \<lparr> SiweResponse.success = True, SiweResponse.error = None, data = message \<rparr>"

definition failure :: "SiweError \<Rightarrow> SiweMessage \<Rightarrow> SiweResponse" where
  "failure err message = \<lparr> SiweResponse.success = False, SiweResponse.error = Some err, data = message \<rparr>"

text \<open>
  Modelled from the spec: the method \<open>verify\<close> of \<open>SiweMessage\<close> belongs to the package
  siwe and is not among the sources. The definition follows the steps of section 4.3 of
  the specification: nonce, expiry, direct recovery over the canonical payload, the
  fallback capability when one is given, and \<open>InvalidSignature\<close> otherwise. Three points
  are as the package behaves when \<open>login\<close> calls it. A failed step rejects the promise with
  the response \<open>{success: false, error, data}\<close>: \<open>login\<close> passes no option that would
  make it resolve instead (lines 114-118) and receives the rejection in its \<open>catch\<close> (lines
  131-141). The nonce is compared when an expected nonce is given, which the empty string
  is not. And when no fallback is given, the verifier's own check of a contract wallet's
  signature through the provider decides between success and \<open>InvalidSignature\<close>. A call of
  the fallback capability is recorded as \<open>VerifyOnChain\<close>. The direct recovery, the
  canonical payload, the contract-wallet check and the current time are parameters.
\<close>

definition verifySpec ::
  "(string \<Rightarrow> string \<Rightarrow> thrown + string) \<Rightarrow> (SiweMessage \<Rightarrow> string)
     \<Rightarrow> ('p option \<Rightarrow> string \<Rightarrow> string \<Rightarrow> string \<Rightarrow> bool) \<Rightarrow> nat
     \<Rightarrow> SiweMessage \<Rightarrow> VerifyParams \<Rightarrow> 'p VerifyOpts \<Rightarrow> effect list \<times> SiweResponse promise"
where
  "verifySpec recover canonicalize contractWalletCheck now message params opts =
     (if VerifyParams.nonce params \<noteq> [] \<and> SiweMessage.nonce message \<noteq> VerifyParams.nonce params
      then ([], Rejected (SiweRejection (failure NonceMismatch message)))
      else if (case expirationTime message of None \<Rightarrow> False | Some t \<Rightarrow> t < now)
      then ([], Rejected (SiweRejection (failure Expired message)))
      else if recover (canonicalize message) (VerifyParams.signature params) = Inr (address message)
      then ([], Resolved (verified message))
      else
        (case verificationFallback opts of
           Some verifyOnChain \<Rightarrow>
             ([VerifyOnChain (address message) (canonicalize message) (VerifyParams.signature params)],
              if verifyOnChain (address message) (canonicalize message) (VerifyParams.signature params)
              then Resolved (verified message)
              else Rejected (SiweRejection (failure InvalidSignature message)))
         | None \<Rightarrow>
             ([],
              if contractWalletCheck (VerifyOpts.provider opts) (address message) (canonicalize message)
                   (VerifyParams.signature params)
              then Resolved (verified message)
              else Rejected (SiweRejection (failure InvalidSignature message)))))"

section \<open>A concrete deployment\<close>

text \<open>
  A small world to run the definitions in. One message parses, the one of the account
  \<open>0xAAA\<close> on chain 1 with nonce \<open>abc123\<close>. A signature is the address of its signer
  when it is five characters long; direct recovery throws on any other length.
  \<open>0xAAA\<close> is a contract wallet: through a provider, its own signature check accepts
  the signature of its owner \<open>0xCCC\<close> and one signature in a format of its own. The
  fallback verifier accepts the signature of the delegate \<open>0xBBB\<close>.
\<close>

definition exMessage :: SiweMessage where
  "exMessage =
     \<lparr> address = ''0xAAA'', chainId = 1, SiweMessage.nonce = ''abc123'', issuedAt = 50,
       expirationTime = Some 200, statement = None, resources = [] \<rparr>"

definition exParse :: "siwe_input \<Rightarrow> thrown + SiweMessage" where
  "exParse raw = (if raw = SiweString ''msg'' then Inr exMessage else Inl (JsError ''Invalid message''))"

definition exPrepare :: "SiweMessage \<Rightarrow> string" where
  "exPrepare m = address m @ '' signs in with nonce '' @ SiweMessage.nonce m"

definition exRecover :: "string \<Rightarrow> string \<Rightarrow> thrown + string" where
  "exRecover payload sig = (if length sig = 5 then Inr sig else Inl (JsError ''invalid signature length''))"

definition exOnChain :: VerificationFallback where
  "exOnChain addr digest sig = (addr = ''0xAAA'' \<and> sig = ''0xBBB'')"

definition exWalletCheck :: "unit option \<Rightarrow> string \<Rightarrow> string \<Rightarrow> string \<Rightarrow> bool" where
  "exWalletCheck p addr digest sig =
     (p = Some () \<and> addr = ''0xAAA'' \<and> (sig = ''0xCCC'' \<or> sig = ''0xsafe-signature''))"

definition exCollab :: "unit Collaborators" where
  "exCollab =
     \<lparr> newSiweMessage = exParse,
       verify = verifySpec exRecover exPrepare exWalletCheck 100,
       prepareMessage = exPrepare,
       verifyMessage = exRecover,
       SiweGnosisVerify = exOnChain,
       ssxResolveEns = (\<lambda>p addr opts. Resolved \<lparr> SSXEnsData.domain = Some ''alice.eth'', avatarUrl = None \<rparr>),
       ssxLog = (\<lambda>d. Resolved True),
       ensRejectsFirst = False,
       numberBeyondSafeInteger = (\<lambda>n. ''1e+21'') \<rparr>"

definition exServer :: "unit SSXServer" where
  "exServer = \<lparr> SSXServer.provider = Some (), emit = (\<lambda>t ev. Inr False) \<rparr>"

text \<open>
  A verifier that validates a contract wallet's signature by itself and resolves with
  success, whether or not a fallback was handed to it.
\<close>

definition exAcceptingVerify ::
  "SiweMessage \<Rightarrow> VerifyParams \<Rightarrow> unit VerifyOpts \<Rightarrow> effect list \<times> SiweResponse promise"
where
  "exAcceptingVerify m params opts =
     ([], Resolved \<lparr> SiweResponse.success = True, SiweResponse.error = None, data = m \<rparr>)"

text \<open>
  A verifier that delivers a failed verification by rejecting its promise with the
  response.
\<close>

definition exRejectingVerify ::
  "SiweMessage \<Rightarrow> VerifyParams \<Rightarrow> unit VerifyOpts \<Rightarrow> effect list \<times> SiweResponse promise"
where
  "exRejectingVerify m params opts =
     ([], Rejected (SiweRejection
            \<lparr> SiweResponse.success = False, SiweResponse.error = Some InvalidSignature, data = m \<rparr>))"

text \<open>
  A name lookup whose promise rejects, as a provider without a network does.
\<close>

definition exFailingEns :: "unit option \<Rightarrow> string \<Rightarrow> SSXEnsResolveOptions option \<Rightarrow> SSXEnsData promise" where
  "exFailingEns p addr opts = Rejected (JsError ''could not detect network'')"

text \<open>The call of \<open>verify\<close> that \<open>login\<close> makes (lines 112-119).\<close>

abbreviation verifyCall ::
  "'p Collaborators \<Rightarrow> 'p SSXServer \<Rightarrow> SiweMessage \<Rightarrow> string \<Rightarrow> bool \<Rightarrow> string
     \<Rightarrow> effect list \<times> SiweResponse promise"
where
  "verifyCall C srv m sig dao nonceArg \<equiv>
     verify C m
       \<lparr> VerifyParams.signature = sig, VerifyParams.nonce = nonceArg \<rparr>
       \<lparr> verificationFallback = (if dao then Some (SiweGnosisVerify C) else None),
         VerifyOpts.provider = SSXServer.provider srv \<rparr>"

section \<open>The paths through login\<close>

lemma type_loginEvent [simp]: "type (loginEvent C d siweIn sig dao smart) = LOGIN"
  by (simp add: loginEvent_def)

lemma login_parse_throws:
  assumes "newSiweMessage C siweIn = Inl e"
  shows "login C srv siweIn sig dao arg nonceArg = ([], Rejected e)"
  using assms by (simp add: login_def)

lemma login_await_rejects:
  assumes "newSiweMessage C siweIn = Inr m"
    and "verifyCall C srv m sig dao nonceArg = (veffs, p)"
    and "promiseAll (ensRejectsFirst C) p (ensPromise C srv m arg) = Rejected e"
  shows "login C srv siweIn sig dao arg nonceArg = (veffs @ [ConsoleError e], Rejected e)"
  using assms by (simp add: login_def)

lemma login_recovery_throws:
  assumes "newSiweMessage C siweIn = Inr m"
    and "verifyCall C srv m sig dao nonceArg = (veffs, p)"
    and "promiseAll (ensRejectsFirst C) p (ensPromise C srv m arg) = Resolved (resp, ensData)"
    and "verifyMessage C (prepareMessage C (data resp)) sig = Inl e"
  shows "login C srv siweIn sig dao arg nonceArg = (veffs @ [ConsoleError e], Rejected e)"
  using assms by (simp add: login_def)

lemma login_returns:
  assumes "newSiweMessage C siweIn = Inr m"
    and "verifyCall C srv m sig dao nonceArg = (veffs, p)"
    and "promiseAll (ensRejectsFirst C) p (ensPromise C srv m arg) = Resolved (resp, ensData)"
    and "verifyMessage C (prepareMessage C (data resp)) sig = Inr a"
    and "emit srv LOGIN (loginEvent C (data resp) siweIn sig dao (a \<noteq> address (data resp))) = Inr b"
  shows "login C srv siweIn sig dao arg nonceArg =
           (veffs @ [SsxLog (loginEvent C (data resp) siweIn sig dao (a \<noteq> address (data resp))),
                     Emit LOGIN (loginEvent C (data resp) siweIn sig dao (a \<noteq> address (data resp)))],
            Resolved
              \<lparr> LoginResult.success = SiweResponse.success resp,
                LoginResult.error = SiweResponse.error resp,
                session = Some \<lparr> SessionData.siwe = m, SessionData.signature = sig,
                                 daoLogin = dao, ens = ensData \<rparr> \<rparr>)"
  using assms by (simp add: login_def Let_def)

lemma promiseAll_resolved_iff:
  "promiseAll f p q = Resolved (a, d) \<longleftrightarrow>
     p = Resolved a \<and> (q = None \<and> d = None \<or> (\<exists>b. q = Some (Resolved b) \<and> d = Some b))"
  by (auto simp: promiseAll_def split: option.splits promise.splits)

lemma promiseAll_resolved_first:
  assumes "\<And>e. q \<noteq> Some (Rejected e)"
  shows "promiseAll f (Resolved resp) q =
           Resolved (resp, case q of Some (Resolved d) \<Rightarrow> Some d | _ \<Rightarrow> None)"
  using assms by (auto simp: promiseAll_def split: option.splits promise.splits)

lemma promiseAll_first_rejected:
  "promiseAll f (Rejected e) q =
     Rejected (case q of Some (Rejected e') \<Rightarrow> (if f then e' else e) | _ \<Rightarrow> e)"
  by (simp add: promiseAll_def split: option.splits promise.splits)

lemma loginEvent_ssxLog:
  "loginEvent (C\<lparr> ssxLog := sink \<rparr>) d siweIn sig dao smart = loginEvent C d siweIn sig dao smart"
  by (simp add: loginEvent_def numberToString_def)

lemma ensPromise_ssxLog:
  "ensPromise (C\<lparr> ssxLog := sink \<rparr>) srv m arg = ensPromise C srv m arg"
  by (simp add: ensPromise_def resolveEns_def)

lemma verifySpec_resolves_verified:
  assumes "verifySpec recover canonicalize walletCheck now m params opts = (veffs, Resolved resp)"
  shows "resp = verified m"
  using assms by (auto simp: verifySpec_def split: if_splits option.splits)

lemma login_resolves_iff:
  "snd (login C srv siweIn sig dao arg nonceArg) = Resolved r \<longleftrightarrow>
     (\<exists>m veffs resp ensData a b.
        newSiweMessage C siweIn = Inr m
        \<and> verifyCall C srv m sig dao nonceArg = (veffs, Resolved resp)
        \<and> promiseAll (ensRejectsFirst C) (Resolved resp) (ensPromise C srv m arg) = Resolved (resp, ensData)
        \<and> verifyMessage C (prepareMessage C (data resp)) sig = Inr a
        \<and> emit srv LOGIN (loginEvent C (data resp) siweIn sig dao (a \<noteq> address (data resp))) = Inr b
        \<and> r = \<lparr> LoginResult.success = SiweResponse.success resp,
                 LoginResult.error = SiweResponse.error resp,
                 session = Some \<lparr> SessionData.siwe = m, SessionData.signature = sig,
                                  daoLogin = dao, ens = ensData \<rparr> \<rparr>)"
  (is "?L \<longleftrightarrow> ?R")
proof
  assume ?R
  then obtain m veffs resp ensData a b where
    h: "newSiweMessage C siweIn = Inr m"
      "verifyCall C srv m sig dao nonceArg = (veffs, Resolved resp)"
      "promiseAll (ensRejectsFirst C) (Resolved resp) (ensPromise C srv m arg) = Resolved (resp, ensData)"
      "verifyMessage C (prepareMessage C (data resp)) sig = Inr a"
      "emit srv LOGIN (loginEvent C (data resp) siweIn sig dao (a \<noteq> address (data resp))) = Inr b"
      "r = \<lparr> LoginResult.success = SiweResponse.success resp,
                 LoginResult.error = SiweResponse.error resp,
                 session = Some \<lparr> SessionData.siwe = m, SessionData.signature = sig,
                                  daoLogin = dao, ens = ensData \<rparr> \<rparr>"
    by blast
  show ?L
    using login_returns [OF h(1) h(2) h(3) h(4) h(5)] h(6) by simp
next
  assume l: ?L
  show ?R
  proof (cases "newSiweMessage C siweIn")
    case (Inl e)
    with l show ?thesis by (simp add: login_def)
  next
    case (Inr m)
    obtain veffs p where v: "verifyCall C srv m sig dao nonceArg = (veffs, p)"
      by (cases "verifyCall C srv m sig dao nonceArg") 
    show ?thesis
    proof (cases "promiseAll (ensRejectsFirst C) p (ensPromise C srv m arg)")
      case (Rejected e)
      from login_await_rejects [OF Inr v Rejected] l show ?thesis by simp
    next
      case (Resolved x)
      obtain resp ensData where x: "x = (resp, ensData)" by (cases x)
      from Resolved x have p: "p = Resolved resp"
        by (simp add: promiseAll_resolved_iff)
      show ?thesis
      proof (cases "verifyMessage C (prepareMessage C (data resp)) sig")
        case (Inl e)
        from login_recovery_throws [OF Inr v Resolved [unfolded x] Inl] l show ?thesis by simp
      next
        case a: (Inr a)
        show ?thesis
        proof (cases "emit srv LOGIN (loginEvent C (data resp) siweIn sig dao (a \<noteq> address (data resp)))")
          case (Inl e)
          with l Inr v Resolved x a show ?thesis by (simp add: login_def Let_def)
        next
          case b: (Inr b)
          from login_returns [OF Inr v Resolved [unfolded x] a b] l
          have "r = \<lparr> LoginResult.success = SiweResponse.success resp,
                 LoginResult.error = SiweResponse.error resp,
                 session = Some \<lparr> SessionData.siwe = m, SessionData.signature = sig,
                                  daoLogin = dao, ens = ensData \<rparr> \<rparr>" by simp
          with Inr v [unfolded p] Resolved [unfolded x p] a b show ?thesis by blast
        qed
      qed
    qed
  qed
qed

lemmas ex_simps =
  login_def exCollab_def exServer_def exParse_def exMessage_def verifySpec_def exRecover_def
  exPrepare_def exOnChain_def exWalletCheck_def verified_def failure_def promiseAll_def
  ensPromise_def resolveEns_def loginEvent_def numberToString_def string_of_nat.simps Let_def

section \<open>The result of login\<close>

text \<open>
  C1, as the code has it. A failed login is thrown, not returned. With a verifier that
  rejects its promise on every failure and so resolves with success only, which is how
  \<open>login\<close> calls it, \<open>login\<close> resolves with a result exactly when the message parses,
  the verification resolves, the name lookup does not reject, direct recovery returns an
  address and no listener throws. The result then has \<open>success = true\<close>, the \<open>error\<close> of
  the verification response and the populated session record
  \<open>{siwe, signature, daoLogin, ens}\<close>. In every other case the promise of \<open>login\<close>
  rejects, so that no session, partial or whole, comes back with a failure, and neither
  does an object \<open>{success: false, error, session: null}\<close>.
\<close>

theorem login_returns_only_success_with_session:
  assumes "\<And>m params opts veffs resp.
             verify C m params opts = (veffs, Resolved resp) \<Longrightarrow> SiweResponse.success resp"
  shows "snd (login C srv siweIn sig dao arg nonceArg) = Resolved r \<longleftrightarrow>
     (\<exists>m veffs resp ensData a b.
        newSiweMessage C siweIn = Inr m
        \<and> verifyCall C srv m sig dao nonceArg = (veffs, Resolved resp)
        \<and> promiseAll (ensRejectsFirst C) (Resolved resp) (ensPromise C srv m arg) = Resolved (resp, ensData)
        \<and> verifyMessage C (prepareMessage C (data resp)) sig = Inr a
        \<and> emit srv LOGIN (loginEvent C (data resp) siweIn sig dao (a \<noteq> address (data resp))) = Inr b
        \<and> r = \<lparr> LoginResult.success = True,
                 LoginResult.error = SiweResponse.error resp,
                 session = Some \<lparr> SessionData.siwe = m, SessionData.signature = sig,
                                  daoLogin = dao, ens = ensData \<rparr> \<rparr>)"
  (is "?L \<longleftrightarrow> ?R")
proof
  assume ?L
  then obtain m veffs resp ensData a b where
    h: "newSiweMessage C siweIn = Inr m"
      "verifyCall C srv m sig dao nonceArg = (veffs, Resolved resp)"
      "promiseAll (ensRejectsFirst C) (Resolved resp) (ensPromise C srv m arg) = Resolved (resp, ensData)"
      "verifyMessage C (prepareMessage C (data resp)) sig = Inr a"
      "emit srv LOGIN (loginEvent C (data resp) siweIn sig dao (a \<noteq> address (data resp))) = Inr b"
      "r = \<lparr> LoginResult.success = SiweResponse.success resp,
                 LoginResult.error = SiweResponse.error resp,
                 session = Some \<lparr> SessionData.siwe = m, SessionData.signature = sig,
                                  daoLogin = dao, ens = ensData \<rparr> \<rparr>"
    unfolding login_resolves_iff by blast
  from assms [OF h(2)] have "SiweResponse.success resp = True"
    by simp
  with h(6) have "r = \<lparr> LoginResult.success = True,
                 LoginResult.error = SiweResponse.error resp,
                 session = Some \<lparr> SessionData.siwe = m, SessionData.signature = sig,
                                  daoLogin = dao, ens = ensData \<rparr> \<rparr>"
    by simp
  with h(1-5) show ?R
    by blast
next
  assume ?R
  then obtain m veffs resp ensData a b where
    h: "newSiweMessage C siweIn = Inr m"
      "verifyCall C srv m sig dao nonceArg = (veffs, Resolved resp)"
      "promiseAll (ensRejectsFirst C) (Resolved resp) (ensPromise C srv m arg) = Resolved (resp, ensData)"
      "verifyMessage C (prepareMessage C (data resp)) sig = Inr a"
      "emit srv LOGIN (loginEvent C (data resp) siweIn sig dao (a \<noteq> address (data resp))) = Inr b"
      "r = \<lparr> LoginResult.success = True,
                 LoginResult.error = SiweResponse.error resp,
                 session = Some \<lparr> SessionData.siwe = m, SessionData.signature = sig,
                                  daoLogin = dao, ens = ensData \<rparr> \<rparr>"
    by blast
  from assms [OF h(2)] have "SiweResponse.success resp = True"
    by simp
  with login_returns [OF h(1) h(2) h(3) h(4) h(5)] h(6) show ?L
    by simp
qed

text \<open>
  The verifier of the concrete deployment resolves with success only, and a valid login
  returns with its session record.
\<close>

theorem login_returns_only_success_with_session_witness:
  "snd (login exCollab exServer (SiweString ''msg'') ''0xAAA'' False (EnsBool True) ''abc123'')
     = Resolved \<lparr> LoginResult.success = True, LoginResult.error = None,
                  session = Some \<lparr> SessionData.siwe = exMessage, SessionData.signature = ''0xAAA'',
                                   daoLogin = False,
                                   ens = Some \<lparr> SSXEnsData.domain = Some ''alice.eth'', avatarUrl = None \<rparr> \<rparr> \<rparr>"
proof -
  have rej: "\<And>m params opts veffs resp.
      verify exCollab m params opts = (veffs, Resolved resp) \<Longrightarrow> SiweResponse.success resp"
  proof -
    fix m params opts veffs resp
    assume "verify exCollab m params opts = (veffs, Resolved resp)"
    then have "verifySpec exRecover exPrepare exWalletCheck 100 m params opts = (veffs, Resolved resp)"
      by (simp add: exCollab_def)
    then have "resp = verified m"
      by (rule verifySpec_resolves_verified)
    then show "SiweResponse.success resp"
      by (simp add: verified_def)
  qed
  have "\<exists>m veffs resp ensData a b.
        newSiweMessage exCollab (SiweString ''msg'') = Inr m
        \<and> verifyCall exCollab exServer m ''0xAAA'' False ''abc123'' = (veffs, Resolved resp)
        \<and> promiseAll (ensRejectsFirst exCollab) (Resolved resp)
              (ensPromise exCollab exServer m (EnsBool True)) = Resolved (resp, ensData)
        \<and> verifyMessage exCollab (prepareMessage exCollab (data resp)) ''0xAAA'' = Inr a
        \<and> emit exServer LOGIN
              (loginEvent exCollab (data resp) (SiweString ''msg'') ''0xAAA'' False (a \<noteq> address (data resp)))
            = Inr b
        \<and> \<lparr> LoginResult.success = True, LoginResult.error = None,
                  session = Some \<lparr> SessionData.siwe = exMessage, SessionData.signature = ''0xAAA'',
                                   daoLogin = False,
                                   ens = Some \<lparr> SSXEnsData.domain = Some ''alice.eth'', avatarUrl = None \<rparr> \<rparr> \<rparr>
          = \<lparr> LoginResult.success = True,
                 LoginResult.error = SiweResponse.error resp,
                 session = Some \<lparr> SessionData.siwe = m, SessionData.signature = ''0xAAA'',
                                  daoLogin = False, ens = ensData \<rparr> \<rparr>"
    by (auto simp: exCollab_def exServer_def exParse_def exMessage_def verifySpec_def verified_def
          exRecover_def exPrepare_def promiseAll_def ensPromise_def resolveEns_def)
  then show ?thesis
    by (simp only: login_returns_only_success_with_session [OF rej])
qed

text \<open>
  A login with the wrong nonce: the verification rejects with the \<open>NonceMismatch\<close>
  response, \<open>login\<close> writes it to the console and throws it. Nothing is returned, in
  particular not \<open>{success: false, error: NonceMismatch, session: null}\<close>.
\<close>

theorem login_failure_is_thrown_counterexample:
  "login exCollab exServer (SiweString ''msg'') ''0xAAA'' False (EnsBool False) ''wrong''
     = ([ConsoleError (SiweRejection (failure NonceMismatch exMessage))],
        Rejected (SiweRejection (failure NonceMismatch exMessage)))
   \<and> snd (login exCollab exServer (SiweString ''msg'') ''0xAAA'' False (EnsBool False) ''wrong'')
     \<noteq> Resolved \<lparr> LoginResult.success = False, LoginResult.error = Some NonceMismatch,
                  session = None \<rparr>"
  by (simp add: ex_simps)

section \<open>Classification of the login in the audit event\<close>

text \<open>
  C2, as the code has it. On every login that reaches the audit event, the flag
  \<open>isGnosis\<close> of the event's content is true exactly when \<open>daoLogin\<close> was requested and
  direct recovery over the verified message does not yield its address. With
  \<open>daoLogin = false\<close> the flag is false whatever the verification did.
\<close>

theorem login_isGnosis_is_daoLogin_and_recovery_mismatch:
  assumes "newSiweMessage C siweIn = Inr m"
    and "verifyCall C srv m sig dao nonceArg = (veffs, Resolved resp)"
    and "\<And>e. ensPromise C srv m arg \<noteq> Some (Rejected e)"
    and "verifyMessage C (prepareMessage C (data resp)) sig = Inr a"
    and "\<And>ev e. emit srv LOGIN ev \<noteq> Inl e"
  shows "\<exists>ev. fst (login C srv siweIn sig dao arg nonceArg) = veffs @ [SsxLog ev, Emit LOGIN ev]
            \<and> event_content.signature (content ev) = sig
            \<and> event_content.siwe (content ev) = siweIn
            \<and> isGnosis (content ev) = (dao \<and> a \<noteq> address (data resp))"
proof -
  let ?ev = "loginEvent C (data resp) siweIn sig dao (a \<noteq> address (data resp))"
  obtain b where b: "emit srv LOGIN ?ev = Inr b"
    using assms(5) by (cases "emit srv LOGIN ?ev") auto
  have "fst (login C srv siweIn sig dao arg nonceArg) = veffs @ [SsxLog ?ev, Emit LOGIN ?ev]"
    using login_returns [OF assms(1) assms(2) promiseAll_resolved_first [OF assms(3)] assms(4) b]
    by simp
  moreover have "event_content.signature (content ?ev) = sig"
    "event_content.siwe (content ?ev) = siweIn"
    "isGnosis (content ?ev) = (dao \<and> a \<noteq> address (data resp))"
    by (simp_all add: loginEvent_def)
  ultimately show ?thesis by blast
qed

text \<open>
  With \<open>daoLogin\<close> requested, the owner's signature for the contract account is reported
  with \<open>isGnosis = true\<close>.
\<close>

theorem login_isGnosis_is_daoLogin_and_recovery_mismatch_witness:
  "newSiweMessage exCollab (SiweString ''msg'') = Inr exMessage
   \<and> verifyMessage exCollab (prepareMessage exCollab exMessage) ''0xBBB'' = Inr ''0xBBB''
   \<and> (\<exists>ev. fst (login exCollab exServer (SiweString ''msg'') ''0xBBB'' True (EnsBool False) ''abc123'')
             = [VerifyOnChain ''0xAAA'' ''0xAAA signs in with nonce abc123'' ''0xBBB'', SsxLog ev, Emit LOGIN ev]
           \<and> isGnosis (content ev))"
  using login_isGnosis_is_daoLogin_and_recovery_mismatch
    [where C = exCollab and siweIn = "SiweString ''msg''" and m = exMessage and srv = exServer
       and sig = "''0xBBB''" and dao = True and nonceArg = "''abc123''"
       and veffs = "[VerifyOnChain ''0xAAA'' ''0xAAA signs in with nonce abc123'' ''0xBBB'']"
       and resp = "\<lparr> SiweResponse.success = True, SiweResponse.error = None, data = exMessage \<rparr>"
       and arg = "EnsBool False" and a = "''0xBBB''"]
  by (auto simp: exCollab_def exServer_def exParse_def exMessage_def verifySpec_def verified_def exRecover_def
        exPrepare_def exOnChain_def ensPromise_def resolveEns_def)

text \<open>
  \<open>daoLogin\<close> is false, the verification succeeds although direct recovery yields another
  address than the message's, and the audit event reports \<open>isGnosis = false\<close>.
\<close>

theorem login_isGnosis_without_daoLogin_counterexample:
  "login (exCollab\<lparr> verify := exAcceptingVerify \<rparr>) exServer (SiweString ''msg'') ''0xBBB'' False
       (EnsBool False) ''abc123''
     = ([SsxLog \<lparr> userId = ''did:pkh:eip155:1:0xAAA'', type = LOGIN,
                  content = \<lparr> event_content.signature = ''0xBBB'',
                              event_content.siwe = SiweString ''msg'', isGnosis = False \<rparr> \<rparr>,
         Emit LOGIN \<lparr> userId = ''did:pkh:eip155:1:0xAAA'', type = LOGIN,
                  content = \<lparr> event_content.signature = ''0xBBB'',
                              event_content.siwe = SiweString ''msg'', isGnosis = False \<rparr> \<rparr>],
        Resolved \<lparr> LoginResult.success = True, LoginResult.error = None,
                  session = Some \<lparr> SessionData.siwe = exMessage, SessionData.signature = ''0xBBB'',
                                   daoLogin = False, ens = None \<rparr> \<rparr>)
   \<and> verifyMessage exCollab (prepareMessage exCollab exMessage) ''0xBBB'' \<noteq> Inr (address exMessage)"
  by (simp add: ex_simps exAcceptingVerify_def)

section \<open>Propagation of errors\<close>

text \<open>
  C3, as the code has it. An exception of the message constructor leaves \<open>login\<close> as it
  is; a rejected verification promise is written to the console and thrown again (or the
  rejection of the name lookup is, when that one rejects too); only a failure that the
  verifier resolves with is returned in the \<open>error\<close> field of the result.
\<close>

theorem login_error_propagation:
  "(newSiweMessage C siweIn = Inl e \<longrightarrow>
      login C srv siweIn sig dao arg nonceArg = ([], Rejected e))
   \<and> (newSiweMessage C siweIn = Inr m
        \<and> verifyCall C srv m sig dao nonceArg = (veffs, Rejected e) \<longrightarrow>
      (\<exists>e'. login C srv siweIn sig dao arg nonceArg = (veffs @ [ConsoleError e'], Rejected e')
            \<and> (e' = e \<or> ensPromise C srv m arg = Some (Rejected e'))))
   \<and> (newSiweMessage C siweIn = Inr m
        \<and> verifyCall C srv m sig dao nonceArg = (veffs, Resolved resp)
        \<and> (\<forall>e'. ensPromise C srv m arg \<noteq> Some (Rejected e'))
        \<and> verifyMessage C (prepareMessage C (data resp)) sig = Inr a
        \<and> (\<forall>ev e'. emit srv LOGIN ev \<noteq> Inl e') \<longrightarrow>
      (\<exists>r. snd (login C srv siweIn sig dao arg nonceArg) = Resolved r
           \<and> LoginResult.success r = SiweResponse.success resp
           \<and> LoginResult.error r = SiweResponse.error resp))"
proof (intro conjI impI)
  assume "newSiweMessage C siweIn = Inl e"
  then show "login C srv siweIn sig dao arg nonceArg = ([], Rejected e)"
    by (rule login_parse_throws)
next
  assume h: "newSiweMessage C siweIn = Inr m
        \<and> verifyCall C srv m sig dao nonceArg = (veffs, Rejected e)"
  let ?e' = "case ensPromise C srv m arg of
               Some (Rejected e') \<Rightarrow> (if ensRejectsFirst C then e' else e) | _ \<Rightarrow> e"
  have "login C srv siweIn sig dao arg nonceArg = (veffs @ [ConsoleError ?e'], Rejected ?e')"
    using h by (intro login_await_rejects [where p = "Rejected e"]) (simp_all add: promiseAll_first_rejected)
  moreover have "?e' = e \<or> ensPromise C srv m arg = Some (Rejected ?e')"
    by (simp split: option.splits promise.splits)
  ultimately show "\<exists>e'. login C srv siweIn sig dao arg nonceArg = (veffs @ [ConsoleError e'], Rejected e')
            \<and> (e' = e \<or> ensPromise C srv m arg = Some (Rejected e'))"
    by blast
next
  assume h: "newSiweMessage C siweIn = Inr m
        \<and> verifyCall C srv m sig dao nonceArg = (veffs, Resolved resp)
        \<and> (\<forall>e'. ensPromise C srv m arg \<noteq> Some (Rejected e'))
        \<and> verifyMessage C (prepareMessage C (data resp)) sig = Inr a
        \<and> (\<forall>ev e'. emit srv LOGIN ev \<noteq> Inl e')"
  let ?ev = "loginEvent C (data resp) siweIn sig dao (a \<noteq> address (data resp))"
  obtain b where b: "emit srv LOGIN ?ev = Inr b"
    using h by (cases "emit srv LOGIN ?ev") auto
  have p: "promiseAll (ensRejectsFirst C) (Resolved resp) (ensPromise C srv m arg) =
             Resolved (resp, case ensPromise C srv m arg of Some (Resolved d) \<Rightarrow> Some d | _ \<Rightarrow> None)"
    using h by (intro promiseAll_resolved_first) simp
  from h have h1: "newSiweMessage C siweIn = Inr m"
    and h2: "verifyCall C srv m sig dao nonceArg = (veffs, Resolved resp)"
    and h4: "verifyMessage C (prepareMessage C (data resp)) sig = Inr a"
    by simp_all
  show "\<exists>r. snd (login C srv siweIn sig dao arg nonceArg) = Resolved r
           \<and> LoginResult.success r = SiweResponse.success resp
           \<and> LoginResult.error r = SiweResponse.error resp"
    using login_returns [OF h1 h2 p h4 b] by simp
qed

text \<open>
  The three cases: a message that does not parse, a verifier that rejects, and a
  verification that resolves.
\<close>

theorem login_error_propagation_witness:
  "login exCollab exServer (SiweString ''garbage'') ''0xBBB'' True (EnsBool True) ''abc123''
     = ([], Rejected (JsError ''Invalid message''))
   \<and> (\<exists>e'. login (exCollab\<lparr> verify := exRejectingVerify \<rparr>) exServer (SiweString ''msg'') ''0xBBB''
               True (EnsBool True) ''abc123'' = ([ConsoleError e'], Rejected e'))
   \<and> (\<exists>r. snd (login exCollab exServer (SiweString ''msg'') ''0xAAA'' False (EnsBool True) ''abc123'')
             = Resolved r
          \<and> LoginResult.success r \<and> LoginResult.error r = None)"
proof (intro conjI)
  show "login exCollab exServer (SiweString ''garbage'') ''0xBBB'' True (EnsBool True) ''abc123''
     = ([], Rejected (JsError ''Invalid message''))"
    using login_error_propagation
      [where C = exCollab and siweIn = "SiweString ''garbage''" and e = "JsError ''Invalid message''"
         and srv = exServer and sig = "''0xBBB''" and dao = True and arg = "EnsBool True"
         and nonceArg = "''abc123''"]
    by (simp add: exCollab_def exParse_def)
next
  show "\<exists>e'. login (exCollab\<lparr> verify := exRejectingVerify \<rparr>) exServer (SiweString ''msg'') ''0xBBB''
               True (EnsBool True) ''abc123'' = ([ConsoleError e'], Rejected e')"
    using login_error_propagation
      [where C = "exCollab\<lparr> verify := exRejectingVerify \<rparr>" and siweIn = "SiweString ''msg''"
         and m = exMessage and veffs = "[]"
         and e = "SiweRejection \<lparr> SiweResponse.success = False,
                                  SiweResponse.error = Some InvalidSignature, data = exMessage \<rparr>"
         and srv = exServer and sig = "''0xBBB''" and dao = True and arg = "EnsBool True"
         and nonceArg = "''abc123''"]
    by (auto simp: exCollab_def exParse_def exRejectingVerify_def)
next
  show "\<exists>r. snd (login exCollab exServer (SiweString ''msg'') ''0xAAA'' False (EnsBool True) ''abc123'')
             = Resolved r
          \<and> LoginResult.success r \<and> LoginResult.error r = None"
    using login_error_propagation
      [where C = exCollab and siweIn = "SiweString ''msg''"
         and m = exMessage and veffs = "[]"
         and resp = "\<lparr> SiweResponse.success = True,
                         SiweResponse.error = None, data = exMessage \<rparr>"
         and srv = exServer and sig = "''0xAAA''" and dao = False and arg = "EnsBool True"
         and nonceArg = "''abc123''" and a = "''0xAAA''"]
    by (auto simp: exCollab_def exServer_def exParse_def exMessage_def verifySpec_def verified_def
          exRecover_def exPrepare_def ensPromise_def resolveEns_def)
qed

text \<open>
  A message that does not parse: the constructor's exception leaves \<open>login\<close>.
\<close>

theorem login_parse_error_thrown_counterexample:
  "login exCollab exServer (SiweString ''garbage'') ''0xAAA'' False (EnsBool False) ''abc123''
     = ([], Rejected (JsError ''Invalid message''))"
  by (simp add: login_def exCollab_def exParse_def)

section \<open>Identity resolution\<close>

text \<open>
  C4, as the code has it. For a login whose verification resolves: a rejection of the
  name lookup is written to the console and thrown by \<open>login\<close>; otherwise the result has
  the \<open>success\<close> and \<open>error\<close> of the verification response, and \<open>session.ens\<close> is what
  the lookup resolved with, or \<open>undefined\<close> when no lookup was requested.
\<close>

theorem login_identity_resolution_outcomes:
  assumes "newSiweMessage C siweIn = Inr m"
    and "verifyCall C srv m sig dao nonceArg = (veffs, Resolved resp)"
  shows "(ensPromise C srv m arg = Some (Rejected e) \<longrightarrow>
            login C srv siweIn sig dao arg nonceArg = (veffs @ [ConsoleError e], Rejected e))
       \<and> (verifyMessage C (prepareMessage C (data resp)) sig = Inr a
            \<and> (\<forall>ev e'. emit srv LOGIN ev \<noteq> Inl e')
            \<and> (\<forall>e'. ensPromise C srv m arg \<noteq> Some (Rejected e')) \<longrightarrow>
          snd (login C srv siweIn sig dao arg nonceArg) =
            Resolved \<lparr> LoginResult.success = SiweResponse.success resp,
                       LoginResult.error = SiweResponse.error resp,
                       session = Some \<lparr> SessionData.siwe = m, SessionData.signature = sig,
                                        daoLogin = dao,
                                        ens = (case ensPromise C srv m arg of
                                                 Some (Resolved d) \<Rightarrow> Some d
                                               | _ \<Rightarrow> None) \<rparr> \<rparr>)"
proof (intro conjI impI)
  assume "ensPromise C srv m arg = Some (Rejected e)"
  then have "promiseAll (ensRejectsFirst C) (Resolved resp) (ensPromise C srv m arg) = Rejected e"
    by (simp add: promiseAll_def)
  from login_await_rejects [OF assms(1) assms(2) this]
  show "login C srv siweIn sig dao arg nonceArg = (veffs @ [ConsoleError e], Rejected e)" .
next
  assume h: "verifyMessage C (prepareMessage C (data resp)) sig = Inr a
            \<and> (\<forall>ev e'. emit srv LOGIN ev \<noteq> Inl e')
            \<and> (\<forall>e'. ensPromise C srv m arg \<noteq> Some (Rejected e'))"
  let ?ev = "loginEvent C (data resp) siweIn sig dao (a \<noteq> address (data resp))"
  obtain b where b: "emit srv LOGIN ?ev = Inr b"
    using h by (cases "emit srv LOGIN ?ev") auto
  have p: "promiseAll (ensRejectsFirst C) (Resolved resp) (ensPromise C srv m arg) =
             Resolved (resp, case ensPromise C srv m arg of Some (Resolved d) \<Rightarrow> Some d | _ \<Rightarrow> None)"
    using h by (intro promiseAll_resolved_first) simp
  from h have h4: "verifyMessage C (prepareMessage C (data resp)) sig = Inr a"
    by simp
  show "snd (login C srv siweIn sig dao arg nonceArg) =
            Resolved \<lparr> LoginResult.success = SiweResponse.success resp,
                       LoginResult.error = SiweResponse.error resp,
                       session = Some \<lparr> SessionData.siwe = m, SessionData.signature = sig,
                                        daoLogin = dao,
                                        ens = (case ensPromise C srv m arg of
                                                 Some (Resolved d) \<Rightarrow> Some d
                                               | _ \<Rightarrow> None) \<rparr> \<rparr>"
    using login_returns [OF assms(1) assms(2) p h4 b] by simp
qed

text \<open>
  A rejecting lookup, a resolving lookup, and no lookup.
\<close>

theorem login_identity_resolution_outcomes_witness:
  "login (exCollab\<lparr> ssxResolveEns := exFailingEns \<rparr>) exServer (SiweString ''msg'') ''0xAAA'' True
       (EnsOptions \<lparr> SSXEnsResolveOptions.domain = True, avatar = True \<rparr>) ''abc123''
     = ([ConsoleError (JsError ''could not detect network'')],
        Rejected (JsError ''could not detect network''))
   \<and> snd (login exCollab exServer (SiweString ''msg'') ''0xAAA'' True (EnsBool True) ''abc123'')
     = Resolved \<lparr> LoginResult.success = True, LoginResult.error = None,
                  session = Some \<lparr> SessionData.siwe = exMessage, SessionData.signature = ''0xAAA'',
                                   daoLogin = True,
                                   ens = Some \<lparr> SSXEnsData.domain = Some ''alice.eth'', avatarUrl = None \<rparr> \<rparr> \<rparr>
   \<and> snd (login exCollab exServer (SiweString ''msg'') ''0xAAA'' True (EnsBool False) ''abc123'')
     = Resolved \<lparr> LoginResult.success = True, LoginResult.error = None,
                  session = Some \<lparr> SessionData.siwe = exMessage, SessionData.signature = ''0xAAA'',
                                   daoLogin = True, ens = None \<rparr> \<rparr>"
proof (intro conjI)
  show "login (exCollab\<lparr> ssxResolveEns := exFailingEns \<rparr>) exServer (SiweString ''msg'') ''0xAAA'' True
       (EnsOptions \<lparr> SSXEnsResolveOptions.domain = True, avatar = True \<rparr>) ''abc123''
     = ([ConsoleError (JsError ''could not detect network'')],
        Rejected (JsError ''could not detect network''))"
    using login_identity_resolution_outcomes
      [where C = "exCollab\<lparr> ssxResolveEns := exFailingEns \<rparr>" and siweIn = "SiweString ''msg''"
         and m = exMessage and veffs = "[]" and srv = exServer and sig = "''0xAAA''" and dao = True
         and resp = "\<lparr> SiweResponse.success = True, SiweResponse.error = None, data = exMessage \<rparr>"
         and arg = "EnsOptions \<lparr> SSXEnsResolveOptions.domain = True, avatar = True \<rparr>"
         and nonceArg = "''abc123''" and e = "JsError ''could not detect network''"]
    by (simp add: exCollab_def exServer_def exParse_def exMessage_def verifySpec_def verified_def exRecover_def
          exPrepare_def ensPromise_def resolveEns_def exFailingEns_def)
next
  show "snd (login exCollab exServer (SiweString ''msg'') ''0xAAA'' True (EnsBool True) ''abc123'')
     = Resolved \<lparr> LoginResult.success = True, LoginResult.error = None,
                  session = Some \<lparr> SessionData.siwe = exMessage, SessionData.signature = ''0xAAA'',
                                   daoLogin = True,
                                   ens = Some \<lparr> SSXEnsData.domain = Some ''alice.eth'', avatarUrl = None \<rparr> \<rparr> \<rparr>"
    using login_identity_resolution_outcomes
      [where C = exCollab and siweIn = "SiweString ''msg''"
         and m = exMessage and veffs = "[]" and srv = exServer and sig = "''0xAAA''" and dao = True
         and resp = "\<lparr> SiweResponse.success = True, SiweResponse.error = None, data = exMessage \<rparr>"
         and arg = "EnsBool True" and nonceArg = "''abc123''" and a = "''0xAAA''"]
    by (simp add: exCollab_def exServer_def exParse_def exMessage_def verifySpec_def verified_def exRecover_def
          exPrepare_def ensPromise_def resolveEns_def)
next
  show "snd (login exCollab exServer (SiweString ''msg'') ''0xAAA'' True (EnsBool False) ''abc123'')
     = Resolved \<lparr> LoginResult.success = True, LoginResult.error = None,
                  session = Some \<lparr> SessionData.siwe = exMessage, SessionData.signature = ''0xAAA'',
                                   daoLogin = True, ens = None \<rparr> \<rparr>"
    using login_identity_resolution_outcomes
      [where C = exCollab and siweIn = "SiweString ''msg''"
         and m = exMessage and veffs = "[]" and srv = exServer and sig = "''0xAAA''" and dao = True
         and resp = "\<lparr> SiweResponse.success = True, SiweResponse.error = None, data = exMessage \<rparr>"
         and arg = "EnsBool False" and nonceArg = "''abc123''" and a = "''0xAAA''"]
    by (simp add: exCollab_def exServer_def exParse_def exMessage_def verifySpec_def verified_def exRecover_def
          exPrepare_def ensPromise_def resolveEns_def)
qed

text \<open>
  The signature is valid and the verification resolves with success, but the name lookup
  rejects: \<open>login\<close> throws the lookup's error.
\<close>

theorem login_identity_rejection_counterexample:
  "login (exCollab\<lparr> ssxResolveEns := exFailingEns \<rparr>) exServer (SiweString ''msg'') ''0xAAA'' False
       (EnsBool True) ''abc123''
     = ([ConsoleError (JsError ''could not detect network'')],
        Rejected (JsError ''could not detect network''))
   \<and> fst (verifyCall (exCollab\<lparr> ssxResolveEns := exFailingEns \<rparr>) exServer exMessage ''0xAAA'' False ''abc123'')
     = []
   \<and> snd (verifyCall (exCollab\<lparr> ssxResolveEns := exFailingEns \<rparr>) exServer exMessage ''0xAAA'' False ''abc123'')
     = Resolved \<lparr> SiweResponse.success = True, SiweResponse.error = None, data = exMessage \<rparr>"
  by (simp add: ex_simps exFailingEns_def)

section \<open>Contract-account signers\<close>




section \<open>Nonce mismatch\<close>




section \<open>The audit event\<close>

text \<open>
  C7, as the code has it. A login that gets as far as its result (the message parses, the
  verification resolves, the name lookup does not reject, direct recovery returns an
  address, no listener throws) hands exactly one event to \<open>ssxLog\<close> and to the listeners,
  after the verifier's own effects; the event has type \<open>LOGIN\<close> and, for a chain id up to
  \<open>Number.MAX_SAFE_INTEGER\<close>, the subject \<open>did:pkh:eip155:<chainId>:<address>\<close> of the
  verified message with the chain id in decimal digits. The promise of \<open>ssxLog\<close> is not
  awaited: no outcome of the sink changes anything that \<open>login\<close> does.
\<close>

theorem login_audit_event:
  assumes "newSiweMessage C siweIn = Inr m"
    and "verifyCall C srv m sig dao nonceArg = (veffs, Resolved resp)"
    and "\<And>e. ensPromise C srv m arg \<noteq> Some (Rejected e)"
    and "verifyMessage C (prepareMessage C (data resp)) sig = Inr a"
    and "\<And>ev e. emit srv LOGIN ev \<noteq> Inl e"
    and "chainId (data resp) \<le> 9007199254740991"
  shows "(\<exists>ev. fst (login C srv siweIn sig dao arg nonceArg) = veffs @ [SsxLog ev, Emit LOGIN ev]
             \<and> type ev = LOGIN
             \<and> userId ev = ''did:pkh:eip155:'' @ string_of_nat (chainId (data resp)) @ '':''
                            @ address (data resp))
       \<and> login (C\<lparr> ssxLog := sink \<rparr>) srv siweIn sig dao arg nonceArg
           = login C srv siweIn sig dao arg nonceArg"
proof (intro conjI)
  let ?ev = "loginEvent C (data resp) siweIn sig dao (a \<noteq> address (data resp))"
  obtain b where b: "emit srv LOGIN ?ev = Inr b"
    using assms(5) by (cases "emit srv LOGIN ?ev") auto
  have "fst (login C srv siweIn sig dao arg nonceArg) = veffs @ [SsxLog ?ev, Emit LOGIN ?ev]"
    using login_returns [OF assms(1) assms(2) promiseAll_resolved_first [OF assms(3)] assms(4) b]
    by simp
  moreover have "type ?ev = LOGIN"
    "userId ?ev = ''did:pkh:eip155:'' @ string_of_nat (chainId (data resp)) @ '':'' @ address (data resp)"
    using assms(6) by (simp_all add: loginEvent_def numberToString_def)
  ultimately show "\<exists>ev. fst (login C srv siweIn sig dao arg nonceArg) = veffs @ [SsxLog ev, Emit LOGIN ev]
             \<and> type ev = LOGIN
             \<and> userId ev = ''did:pkh:eip155:'' @ string_of_nat (chainId (data resp)) @ '':''
                            @ address (data resp)"
    by blast
next
  show "login (C\<lparr> ssxLog := sink \<rparr>) srv siweIn sig dao arg nonceArg
           = login C srv siweIn sig dao arg nonceArg"
    by (simp add: login_def ensPromise_ssxLog loginEvent_ssxLog Let_def
          cong: sum.case_cong prod.case_cong promise.case_cong)
qed

text \<open>
  A successful login with a sink that rejects.
\<close>

theorem login_audit_event_witness:
  "(\<exists>ev. fst (login exCollab exServer (SiweString ''msg'') ''0xAAA'' False (EnsBool True) ''abc123'')
            = [SsxLog ev, Emit LOGIN ev]
         \<and> type ev = LOGIN
         \<and> userId ev = ''did:pkh:eip155:1:0xAAA'')
   \<and> login (exCollab\<lparr> ssxLog := (\<lambda>d. Rejected (JsError ''sink unavailable'')) \<rparr>) exServer
        (SiweString ''msg'') ''0xAAA'' False (EnsBool True) ''abc123''
      = login exCollab exServer (SiweString ''msg'') ''0xAAA'' False (EnsBool True) ''abc123''"
proof -
  have h1: "newSiweMessage exCollab (SiweString ''msg'') = Inr exMessage"
    by (simp add: exCollab_def exParse_def)
  have h2: "verifyCall exCollab exServer exMessage ''0xAAA'' False ''abc123'' =
              ([], Resolved \<lparr> SiweResponse.success = True, SiweResponse.error = None, data = exMessage \<rparr>)"
    by (simp add: exCollab_def verifySpec_def verified_def exRecover_def exMessage_def)
  have h3: "\<And>e. ensPromise exCollab exServer exMessage (EnsBool True) \<noteq> Some (Rejected e)"
    by (simp add: ensPromise_def resolveEns_def exCollab_def)
  have h4: "verifyMessage exCollab
              (prepareMessage exCollab
                 (data \<lparr> SiweResponse.success = True, SiweResponse.error = None, data = exMessage \<rparr>))
              ''0xAAA'' = Inr ''0xAAA''"
    by (simp add: exCollab_def exRecover_def)
  have h5: "\<And>ev e. emit exServer LOGIN ev \<noteq> Inl e"
    by (simp add: exServer_def)
  have h6: "chainId (data \<lparr> SiweResponse.success = True, SiweResponse.error = None, data = exMessage \<rparr>)
              \<le> 9007199254740991"
    by (simp add: exMessage_def)
  have u: "string_of_nat (chainId exMessage) = ''1''" "address exMessage = ''0xAAA''"
    by (simp_all add: exMessage_def string_of_nat.simps)
  show ?thesis
    using login_audit_event [OF h1 h2 h3 h4 h5 h6, of "\<lambda>d. Rejected (JsError ''sink unavailable'')"]
    by (simp add: u)
qed

text \<open>
  A login attempt whose verification rejects leaves one line on the console and no audit
  event.
\<close>

theorem login_rejected_attempt_no_event_counterexample:
  "login (exCollab\<lparr> verify := exRejectingVerify \<rparr>) exServer (SiweString ''msg'') ''0xBBB'' False
       (EnsBool False) ''abc123''
     = ([ConsoleError (SiweRejection \<lparr> SiweResponse.success = False,
                                       SiweResponse.error = Some InvalidSignature, data = exMessage \<rparr>)],
        Rejected (SiweRejection \<lparr> SiweResponse.success = False,
                                  SiweResponse.error = Some InvalidSignature, data = exMessage \<rparr>))"
  by (simp add: login_def exCollab_def exParse_def exRejectingVerify_def promiseAll_def ensPromise_def)

section \<open>Logout\<close>

text \<open>
  C8. \<open>logout\<close> called without a destroy capability resolves with \<open>undefined\<close>, which
  is not the boolean \<open>true\<close>; with a capability it settles exactly as the capability's
  promise does.
\<close>

theorem logout_without_capability_is_undefined:
  "logout (None :: (unit \<Rightarrow> bool promise) option) = Resolved None
   \<and> logout None \<noteq> Resolved (Some True)
   \<and> logout (Some (\<lambda>_. Resolved b)) = Resolved (Some b)
   \<and> logout (Some (\<lambda>_. Rejected e :: bool promise)) = Rejected e"
  by (simp add: logout_def)

section \<open>Exceptions of the classification step\<close>

text \<open>
  C10. After the verification has resolved with success, \<open>login\<close> runs
  \<open>utils.verifyMessage\<close> over \<open>data.prepareMessage()\<close> and the signature once more; when
  that call throws, the exception is written to the console and leaves \<open>login\<close>, and no
  audit event is produced.
\<close>

theorem login_classification_exception_escapes:
  assumes "newSiweMessage C siweIn = Inr m"
    and "verifyCall C srv m sig dao nonceArg = (veffs, Resolved resp)"
    and "SiweResponse.success resp"
    and "\<And>e'. ensPromise C srv m arg \<noteq> Some (Rejected e')"
    and "verifyMessage C (prepareMessage C (data resp)) sig = Inl e"
  shows "login C srv siweIn sig dao arg nonceArg = (veffs @ [ConsoleError e], Rejected e)"
  using login_recovery_throws [OF assms(1) assms(2) promiseAll_resolved_first [OF assms(4)] assms(5)] .

text \<open>
  A signature of the contract wallet in a format of its own: the verifier's own
  contract-wallet check accepts it through the provider, and direct recovery cannot
  process it.
\<close>

theorem login_classification_exception_escapes_witness:
  "newSiweMessage exCollab (SiweString ''msg'') = Inr exMessage
   \<and> verifyCall exCollab exServer exMessage ''0xsafe-signature'' False ''abc123''
       = ([], Resolved (verified exMessage))
   \<and> SiweResponse.success (verified exMessage)
   \<and> verifyMessage exCollab (prepareMessage exCollab (data (verified exMessage))) ''0xsafe-signature''
       = Inl (JsError ''invalid signature length'')
   \<and> login exCollab exServer (SiweString ''msg'') ''0xsafe-signature'' False
         (EnsOptions \<lparr> SSXEnsResolveOptions.domain = True, avatar = False \<rparr>) ''abc123''
       = ([ConsoleError (JsError ''invalid signature length'')],
          Rejected (JsError ''invalid signature length''))"
proof -
  have h1: "newSiweMessage exCollab (SiweString ''msg'') = Inr exMessage"
    by (simp add: exCollab_def exParse_def)
  have h2: "verifyCall exCollab exServer exMessage ''0xsafe-signature'' False ''abc123''
              = ([], Resolved (verified exMessage))"
    by (simp add: exCollab_def exServer_def verifySpec_def exMessage_def exRecover_def exWalletCheck_def)
  have h3: "SiweResponse.success (verified exMessage)"
    by (simp add: verified_def)
  have h4: "\<And>e'. ensPromise exCollab exServer exMessage
                     (EnsOptions \<lparr> SSXEnsResolveOptions.domain = True, avatar = False \<rparr>)
                   \<noteq> Some (Rejected e')"
    by (simp add: ensPromise_def resolveEns_def exCollab_def)
  have h5: "verifyMessage exCollab (prepareMessage exCollab (data (verified exMessage))) ''0xsafe-signature''
              = Inl (JsError ''invalid signature length'')"
    by (simp add: exCollab_def exRecover_def)
  from login_classification_exception_escapes [OF h1 h2 h3 h4 h5]
  have "login exCollab exServer (SiweString ''msg'') ''0xsafe-signature'' False
         (EnsOptions \<lparr> SSXEnsResolveOptions.domain = True, avatar = False \<rparr>) ''abc123''
       = ([ConsoleError (JsError ''invalid signature length'')],
          Rejected (JsError ''invalid signature length''))"
    by simp
  with h1 h2 h3 h5 show ?thesis
    by (intro conjI)
qed

end
